theory Spec2Isabelle
  imports Main "HOL-Library.Sublist"
begin

section \<open>JavaScript values and JSON objects\<close>

text \<open>
  Request bodies, token payloads and \<open>where\<close> clauses are JavaScript objects.
  A value is \<open>undefined\<close>, \<open>null\<close>, a number or a string; an object is a list
  of key/value pairs in insertion order. Reading a key that the object does not have
  gives \<open>undefined\<close>, as a property access does.
\<close>

datatype js = Undefined | Null | Num int | Str string

type_synonym obj = "(string \<times> js) list"

definition get :: "obj \<Rightarrow> string \<Rightarrow> js" where
  "get ob k = (case map_of ob k of None \<Rightarrow> Undefined | Some v \<Rightarrow> v)"

text \<open>
  \<^verbatim>\<open>{ ...body, k: v }\<close>: the properties of \<open>body\<close> are copied in order and the
  property \<open>k\<close> is then written, replacing the copied value when \<open>body\<close> has one.
\<close>

fun spread_with :: "obj \<Rightarrow> string \<Rightarrow> js \<Rightarrow> obj" where
  "spread_with [] k v = [(k, v)]"
| "spread_with ((k', v') # ob) k v =
     (if k' = k then (k, v) # ob else (k', v') # spread_with ob k v)"

section \<open>The table \<open>Users\<close> and the model \<open>User\<close> (models/Users.ts)\<close>

text \<open>
  \<open>User.init\<close> declares the attributes \<open>id\<close> (integer, auto-increment, primary key),
  \<open>username\<close>, \<open>email\<close> and \<open>password\<close> (strings, \<open>allowNull: false\<close>). With the
  timestamps \<open>createdAt\<close> and \<open>updatedAt\<close>, which the model adds by default,
  these are the attributes of an instance; it carries no other. A timestamp is a number
  of milliseconds.

  The handlers of index.ts filter the same table by a column \<open>userId\<close>, which the
  model does not declare. A row of the table therefore has the model's attributes and
  the column \<open>userId\<close>; the model never writes that column and never selects it.
\<close>

record User =
  id' :: int
  username :: string
  email :: string
  password :: string
  createdAt :: int
  updatedAt :: int

record Users_row = User +
  userId :: "int option"

datatype storage_error = ConnectionError | ValidationError | DatabaseError

record db =
  rows :: "Users_row list"
  next_id :: int
  down :: bool

definition instance_of :: "Users_row \<Rightarrow> User" where
  "instance_of r = \<lparr>id' = id' r, username = username r, email = email r, password = password r,
                     createdAt = createdAt r, updatedAt = updatedAt r\<rparr>"

text \<open>
  What the model takes from the process when it writes: the current time, and the
  reading of a value given for a timestamp (\<open>None\<close> when the value is not a date).
  Both are parameters.
\<close>

record dates =
  date_now :: int
  date_in :: "js \<Rightarrow> int option"

subsection \<open>Literals compared with a column\<close>

text \<open>
  A \<open>where\<close> clause gives each column either a value to equal or, with
  \<open>Op.like\<close>, a pattern to match.
\<close>

datatype cond_value = Eq js | Like string

type_synonym where_options = "(string \<times> cond_value) list"

definition is_digit :: "char \<Rightarrow> bool" where
  "is_digit c = (c \<in> set ''0123456789'')"

definition digit_val :: "char \<Rightarrow> int" where
  "digit_val c = int (of_char c) - 48"

definition digits_val :: "string \<Rightarrow> int" where
  "digits_val s = foldl (\<lambda>a c. 10 * a + digit_val c) 0 s"

text \<open>
  A string literal compared with an integer column is read as an integer by the
  database. The spellings read here are an optional sign and at least one decimal
  digit, within 32 bits; every other string is taken as an error of the query. (The
  database also reads some other spellings, such as surrounding blanks; the statements
  below speak of the spellings read here.)
\<close>

definition pg_int :: "string \<Rightarrow> int option" where
  "pg_int s =
     (let (neg, ds) = (case s of
                         c # cs \<Rightarrow> if c = CHR ''-'' then (True, cs)
                                   else if c = CHR ''+'' then (False, cs) else (False, s)
                       | [] \<Rightarrow> (False, s));
          n = (if neg then - digits_val ds else digits_val ds)
      in if ds \<noteq> [] \<and> list_all is_digit ds \<and> - 2147483648 \<le> n \<and> n \<le> 2147483647
         then Some n else None)"

text \<open>
  \<open>LIKE\<close> of the database (the dialect is postgres): \<open>%\<close> matches any run of
  characters, \<open>_\<close> any one character, and a backslash makes the character after it
  literal. A pattern that ends in a lone backslash is an error of the query.
\<close>

fun like_ok :: "string \<Rightarrow> bool" where
  "like_ok [] = True"
| "like_ok [c] = (c \<noteq> CHR 0x5C)"
| "like_ok (c # c' # p) = (if c = CHR 0x5C then like_ok p else like_ok (c' # p))"

fun like :: "string \<Rightarrow> string \<Rightarrow> bool" where
  "like [] s = (s = [])"
| "like (c # p) s =
     (if c = CHR ''%'' then
        (like p s \<or> (case s of [] \<Rightarrow> False | x # s' \<Rightarrow> like (c # p) s'))
      else if c = CHR ''_'' then
        (case s of [] \<Rightarrow> False | x # s' \<Rightarrow> like p s')
      else if c = CHR 0x5C then
        (case p of
           [] \<Rightarrow> False
         | c' # p' \<Rightarrow> (case s of [] \<Rightarrow> False | x # s' \<Rightarrow> x = c' \<and> like p' s'))
      else (case s of [] \<Rightarrow> False | x # s' \<Rightarrow> x = c \<and> like p s'))"

text \<open>
  The query builder writes the pattern into the query as a string literal, and in
  doing so rewrites the character U+0000 to a backslash and the digit 0. A string
  given as a value to equal is compared as it is given.
\<close>

definition sql_literal :: "string \<Rightarrow> string" where
  "sql_literal s = concat (map (\<lambda>c. if c = CHR 0x00 then [CHR 0x5C, CHR ''0''] else [c]) s)"

text \<open>
  One condition \<open>column: value\<close> of a \<open>where\<close> clause, as a predicate on rows.
  \<open>undefined\<close> is refused by the query builder, an unknown column and a literal of
  the wrong type by the database; \<open>null\<close> is \<open>IS NULL\<close>.
\<close>

definition int_cond :: "(Users_row \<Rightarrow> int option) \<Rightarrow> cond_value
    \<Rightarrow> storage_error + (Users_row \<Rightarrow> bool)" where
  "int_cond col v =
     (case v of
        Eq Undefined \<Rightarrow> Inl DatabaseError
      | Eq Null \<Rightarrow> Inr (\<lambda>r. col r = None)
      | Eq (Num n) \<Rightarrow> Inr (\<lambda>r. col r = Some n)
      | Eq (Str s) \<Rightarrow> (case pg_int s of None \<Rightarrow> Inl DatabaseError
                                      | Some n \<Rightarrow> Inr (\<lambda>r. col r = Some n))
      | Like p \<Rightarrow> Inl DatabaseError)"

definition str_cond :: "(Users_row \<Rightarrow> string) \<Rightarrow> cond_value
    \<Rightarrow> storage_error + (Users_row \<Rightarrow> bool)" where
  "str_cond col v =
     (case v of
        Eq Undefined \<Rightarrow> Inl DatabaseError
      | Eq Null \<Rightarrow> Inr (\<lambda>r. False)
      | Eq (Num n) \<Rightarrow> Inl DatabaseError
      | Eq (Str s) \<Rightarrow> Inr (\<lambda>r. col r = s)
      | Like p \<Rightarrow> if like_ok (sql_literal p) then Inr (\<lambda>r. like (sql_literal p) (col r))
                  else Inl DatabaseError)"

definition cond :: "string \<times> cond_value \<Rightarrow> storage_error + (Users_row \<Rightarrow> bool)" where
  "cond kv =
     (let (k, v) = kv in
      if k = ''id'' then int_cond (\<lambda>r. Some (id' r)) v
      else if k = ''userId'' then int_cond userId v
      else if k = ''username'' then str_cond username v
      else if k = ''email'' then str_cond email v
      else if k = ''password'' then str_cond password v
      else Inl DatabaseError)"

fun where_clause :: "where_options \<Rightarrow> storage_error + (Users_row \<Rightarrow> bool)" where
  "where_clause [] = Inr (\<lambda>r. True)"
| "where_clause (kv # w) =
     (case cond kv of
        Inl e \<Rightarrow> Inl e
      | Inr p \<Rightarrow> (case where_clause w of
                    Inl e \<Rightarrow> Inl e
                  | Inr q \<Rightarrow> Inr (\<lambda>r. p r \<and> q r)))"

text \<open>Every operation of the model fails when the connection to the database is down.\<close>

definition query :: "db \<Rightarrow> where_options \<Rightarrow> storage_error + (Users_row \<Rightarrow> bool)" where
  "query d w = (if down d then Inl ConnectionError else where_clause w)"

subsection \<open>\<open>findOne\<close>, \<open>findAll\<close>, \<open>destroy\<close>\<close>

definition findAll :: "db \<Rightarrow> where_options \<Rightarrow> storage_error + User list" where
  "findAll d w =
     (case query d w of
        Inl e \<Rightarrow> Inl e
      | Inr p \<Rightarrow> Inr (map instance_of (filter p (rows d))))"

definition findOne :: "db \<Rightarrow> where_options \<Rightarrow> storage_error + User option" where
  "findOne d w =
     (case query d w of
        Inl e \<Rightarrow> Inl e
      | Inr p \<Rightarrow> Inr (case filter p (rows d) of [] \<Rightarrow> None | r # _ \<Rightarrow> Some (instance_of r)))"

text \<open>\<open>destroy\<close> deletes the rows that match and resolves to their number.\<close>

definition destroy :: "db \<Rightarrow> where_options \<Rightarrow> storage_error + (nat \<times> db)" where
  "destroy d w =
     (case query d w of
        Inl e \<Rightarrow> Inl e
      | Inr p \<Rightarrow> Inr (length (filter p (rows d)), d\<lparr>rows := filter (\<lambda>r. \<not> p r) (rows d)\<rparr>))"

subsection \<open>\<open>create\<close> and \<open>update\<close>\<close>

text \<open>A number written to a string column is stored as its decimal text.\<close>

fun nat_text :: "nat \<Rightarrow> string" where
  "nat_text n =
     (if n < 10 then [char_of (48 + n)]
      else nat_text (n div 10) @ [char_of (48 + n mod 10)])"

definition int_text :: "int \<Rightarrow> string" where
  "int_text i = (if i < 0 then CHR ''-'' # nat_text (nat (- i)) else nat_text (nat i))"

definition absent :: "js \<Rightarrow> bool" where
  "absent v = (v = Undefined \<or> v = Null)"

definition falsy :: "js \<Rightarrow> bool" where
  "falsy v = (v = Undefined \<or> v = Null \<or> v = Num 0 \<or> v = Str [])"

definition text_of :: "js \<Rightarrow> string" where
  "text_of v = (case v of Str s \<Rightarrow> s | Num n \<Rightarrow> int_text n | _ \<Rightarrow> [])"

definition int4 :: "int \<Rightarrow> bool" where
  "int4 n = (- 2147483648 \<le> n \<and> n \<le> 2147483647)"

text \<open>
  The string columns are \<open>STRING(128)\<close>: the database refuses a text of more than
  128 characters, and a text that holds the character U+0000.
\<close>

definition storable :: "string \<Rightarrow> bool" where
  "storable s = (length s \<le> 128 \<and> CHR 0x00 \<notin> set s)"

text \<open>
  \<open>User.create(values)\<close> builds an instance from the declared attributes of
  \<open>values\<close> (a key that is not an attribute of the model is dropped), validates it
  (\<open>allowNull: false\<close>), and inserts it. The id is the one given, or the next value of
  the sequence; a second row with the same primary key is refused, and so is a value
  that the column cannot hold. \<open>createdAt\<close> is the one given, or the current time;
  \<open>updatedAt\<close> is the current time. The column \<open>userId\<close> is not an attribute, so
  the new row has none. The promise resolves to the instance that was built.
\<close>

definition new_id :: "db \<Rightarrow> js \<Rightarrow> storage_error + (int \<times> int)" where
  "new_id d v =
     (case v of
        Undefined \<Rightarrow> Inr (next_id d, next_id d + 1)
      | Null \<Rightarrow> Inr (next_id d, next_id d + 1)
      | Num n \<Rightarrow> if int4 n then Inr (n, next_id d) else Inl DatabaseError
      | Str s \<Rightarrow> (case pg_int s of None \<Rightarrow> Inl DatabaseError
                                 | Some n \<Rightarrow> Inr (n, next_id d)))"

definition new_createdAt :: "dates \<Rightarrow> js \<Rightarrow> int option" where
  "new_createdAt ds v = (if falsy v then Some (date_now ds) else date_in ds v)"

definition create :: "dates \<Rightarrow> db \<Rightarrow> obj \<Rightarrow> storage_error + (User \<times> db)" where
  "create ds d values =
     (if absent (get values ''username'') \<or> absent (get values ''email'')
         \<or> absent (get values ''password'')
      then Inl ValidationError
      else if down d then Inl ConnectionError
      else if \<not> storable (text_of (get values ''username''))
              \<or> \<not> storable (text_of (get values ''email''))
              \<or> \<not> storable (text_of (get values ''password''))
      then Inl DatabaseError
      else (case new_createdAt ds (get values ''createdAt'') of
              None \<Rightarrow> Inl DatabaseError
            | Some created \<Rightarrow>
               (case new_id d (get values ''id'') of
                  Inl e \<Rightarrow> Inl e
                | Inr (i, nxt) \<Rightarrow>
                    if i \<in> set (map id' (rows d)) then Inl DatabaseError
                    else let u = \<lparr>id' = i, username = text_of (get values ''username''),
                                   email = text_of (get values ''email''),
                                   password = text_of (get values ''password''),
                                   createdAt = created, updatedAt = date_now ds\<rparr>
                         in Inr (u, d\<lparr>rows := rows d @ [User.extend u (Users_row.fields None)],
                                      next_id := nxt\<rparr>))))"

text \<open>
  \<open>User.update(values, {where})\<close>, in the order in which it works:
  \<^item> it validates the attributes that \<open>values\<close> gives: an \<open>undefined\<close> value is
    ignored, a \<open>null\<close> for an attribute declared \<open>allowNull: false\<close> is refused;
  \<^item> when \<open>values\<close> gives no attribute of the model (other than \<open>updatedAt\<close>,
    which the model sets itself), it resolves to 0 without a query;
  \<^item> otherwise it runs one statement. The database refuses the statement, whether or
    not a row matches, when a value given cannot be read for its column: an id that is
    not a 32-bit integer, a text the column cannot hold, a \<open>createdAt\<close> that is not
    a date;
  \<^item> the rows that match are written (with \<open>updatedAt\<close> the current time) and are
    found after the other rows from then on; a \<open>null\<close> for the id or for
    \<open>createdAt\<close>, and a primary key that is no longer unique, fail on a row that is
    written. It resolves to the number of rows that matched.
\<close>

definition null_given :: "obj \<Rightarrow> string \<Rightarrow> bool" where
  "null_given values k = (get values k = Null)"

definition given :: "obj \<Rightarrow> bool" where
  "given values =
     (get values ''id'' \<noteq> Undefined \<or> get values ''username'' \<noteq> Undefined
      \<or> get values ''email'' \<noteq> Undefined \<or> get values ''password'' \<noteq> Undefined
      \<or> get values ''createdAt'' \<noteq> Undefined)"

definition set_id :: "js \<Rightarrow> storage_error + (int \<Rightarrow> int option)" where
  "set_id v =
     (case v of
        Undefined \<Rightarrow> Inr (\<lambda>old. Some old)
      | Null \<Rightarrow> Inr (\<lambda>old. None)
      | Num n \<Rightarrow> if int4 n then Inr (\<lambda>old. Some n) else Inl DatabaseError
      | Str s \<Rightarrow> (case pg_int s of None \<Rightarrow> Inl DatabaseError
                                 | Some n \<Rightarrow> Inr (\<lambda>old. Some n)))"

definition set_text :: "js \<Rightarrow> storage_error + (string \<Rightarrow> string)" where
  "set_text v =
     (if v = Undefined then Inr (\<lambda>old. old)
      else if storable (text_of v) then Inr (\<lambda>old. text_of v)
      else Inl DatabaseError)"

definition set_createdAt :: "dates \<Rightarrow> js \<Rightarrow> storage_error + (int \<Rightarrow> int option)" where
  "set_createdAt ds v =
     (if v = Undefined then Inr (\<lambda>old. Some old)
      else if v = Null then Inr (\<lambda>old. None)
      else (case date_in ds v of None \<Rightarrow> Inl DatabaseError
                              | Some t \<Rightarrow> Inr (\<lambda>old. Some t)))"

text \<open>The assignments of the statement, as a function on the row that is written.\<close>

definition assignments :: "dates \<Rightarrow> obj \<Rightarrow> storage_error + (Users_row \<Rightarrow> Users_row option)" where
  "assignments ds values =
     (case set_id (get values ''id'') of Inl e \<Rightarrow> Inl e | Inr fi \<Rightarrow>
      case set_text (get values ''username'') of Inl e \<Rightarrow> Inl e | Inr fu \<Rightarrow>
      case set_text (get values ''email'') of Inl e \<Rightarrow> Inl e | Inr fe \<Rightarrow>
      case set_text (get values ''password'') of Inl e \<Rightarrow> Inl e | Inr fp \<Rightarrow>
      case set_createdAt ds (get values ''createdAt'') of Inl e \<Rightarrow> Inl e | Inr fc \<Rightarrow>
        Inr (\<lambda>r. case fi (id' r) of
                    None \<Rightarrow> None
                  | Some i \<Rightarrow> (case fc (createdAt r) of
                                None \<Rightarrow> None
                              | Some t \<Rightarrow> Some (r\<lparr>id' := i, username := fu (username r),
                                                    email := fe (email r),
                                                    password := fp (password r),
                                                    createdAt := t,
                                                    updatedAt := date_now ds\<rparr>))))"

fun write_rows :: "(Users_row \<Rightarrow> Users_row option) \<Rightarrow> Users_row list \<Rightarrow> Users_row list option" where
  "write_rows f [] = Some []"
| "write_rows f (r # rs) =
     (case f r of
        None \<Rightarrow> None
      | Some r' \<Rightarrow> (case write_rows f rs of
                     None \<Rightarrow> None
                   | Some rs' \<Rightarrow> Some (r' # rs')))"

definition update :: "dates \<Rightarrow> db \<Rightarrow> obj \<Rightarrow> where_options \<Rightarrow> storage_error + (nat \<times> db)" where
  "update ds d values w =
     (if null_given values ''username'' \<or> null_given values ''email''
         \<or> null_given values ''password''
      then Inl ValidationError
      else if \<not> given values then Inr (0, d)
      else (case query d w of
              Inl e \<Rightarrow> Inl e
            | Inr p \<Rightarrow>
                (case assignments ds values of
                   Inl e \<Rightarrow> Inl e
                 | Inr f \<Rightarrow>
                     (case write_rows f (filter p (rows d)) of
                        None \<Rightarrow> Inl DatabaseError
                      | Some written \<Rightarrow>
                          let rs = filter (\<lambda>r. \<not> p r) (rows d) @ written in
                          if written \<noteq> [] \<and> \<not> distinct (map id' rs) then Inl DatabaseError
                          else Inr (length written, d\<lparr>rows := rs\<rparr>)))))"

declare nat_text.simps [simp del]

section \<open>Tokens (jsonwebtoken, as index.ts uses it)\<close>

text \<open>
  The value of the \<open>Authorization\<close> header is a string. Either it does not decode
  as a signed token (\<open>Garbage\<close>: not three parts, or parts that are not the encoding of
  a header and a payload), or it decodes to the algorithm named in its header, its
  payload and its signature (\<open>Jws\<close>). The message authentication code is a parameter
  \<open>mac\<close> of the model: \<open>mac key a payload\<close> is the signature that algorithm \<open>a\<close>
  computes with \<open>key\<close> over the encoded header and payload.
\<close>

datatype alg = HS256 | HS384 | HS512 | OtherAlg string

datatype token = Garbage string | Jws alg obj string

type_synonym mac = "string \<Rightarrow> alg \<Rightarrow> obj \<Rightarrow> string"

text \<open>\<^verbatim>\<open>const secretKey = process.env.JWT_SECRET || 'yourSecretKey'\<close>\<close>

definition secretKey :: "string option \<Rightarrow> string" where
  "secretKey JWT_SECRET =
     (case JWT_SECRET of None \<Rightarrow> ''yourSecretKey''
                       | Some s \<Rightarrow> if s = [] then ''yourSecretKey'' else s)"

text \<open>
  \<open>jwt.sign(data, key, {algorithm})\<close> adds the claim \<open>iat\<close> (the time of issue,
  unless \<open>data\<close> brings its own) and signs. It throws when a registered claim of
  \<open>data\<close> is not a number.
\<close>

definition numeric_claim :: "js \<Rightarrow> bool" where
  "numeric_claim v = (case v of Undefined \<Rightarrow> True | Num n \<Rightarrow> True | _ \<Rightarrow> False)"

definition jwt_sign :: "mac \<Rightarrow> nat \<Rightarrow> obj \<Rightarrow> string \<Rightarrow> alg \<Rightarrow> token option" where
  "jwt_sign m now data key a =
     (if numeric_claim (get data ''iat'') \<and> numeric_claim (get data ''exp'')
         \<and> numeric_claim (get data ''nbf'')
      then (let payload = (if get data ''iat'' = Undefined \<or> get data ''iat'' = Num 0
                           then spread_with data ''iat'' (Num (int now)) else data)
            in Some (Jws a payload (m key a payload)))
      else None)"

text \<open>
  \<open>jwt.verify(token, key, {algorithms})\<close> throws unless the token decodes, its
  algorithm is one of \<open>algorithms\<close>, its signature is the one \<open>key\<close> gives, and the
  claims \<open>nbf\<close> and \<open>exp\<close>, when present, are numbers that admit the current time.
  It returns the payload.
\<close>

definition jwt_verify :: "mac \<Rightarrow> nat \<Rightarrow> token \<Rightarrow> string \<Rightarrow> alg list \<Rightarrow> obj option" where
  "jwt_verify m now t key algorithms =
     (case t of
        Garbage s \<Rightarrow> None
      | Jws a payload sig \<Rightarrow>
          if a \<notin> set algorithms then None
          else if sig = [] \<or> sig \<noteq> m key a payload then None
          else if (case get payload ''nbf'' of
                     Undefined \<Rightarrow> False | Num n \<Rightarrow> int now < n | _ \<Rightarrow> True) then None
          else if (case get payload ''exp'' of
                     Undefined \<Rightarrow> False | Num n \<Rightarrow> n \<le> int now | _ \<Rightarrow> True) then None
          else Some payload)"

text \<open>
  The configuration of the process: the environment, the clock as the token library
  reads it (in seconds), the MAC, and what the model takes for its timestamps.
\<close>

record config =
  JWT_SECRET :: "string option"
  clock :: nat
  hmac :: mac
  orm_dates :: dates

definition signToken :: "config \<Rightarrow> obj \<Rightarrow> token option" where
  "signToken c data = jwt_sign (hmac c) (clock c) data (secretKey (JWT_SECRET c)) HS256"

text \<open>\<open>verifyToken\<close> catches whatever \<open>jwt.verify\<close> throws and returns \<open>null\<close>.\<close>

definition verifyToken :: "config \<Rightarrow> token \<Rightarrow> obj option" where
  "verifyToken c t = jwt_verify (hmac c) (clock c) t (secretKey (JWT_SECRET c)) [HS256]"

section \<open>Responses\<close>

text \<open>
  A handler either sends a response (a status and a body) or lets the rejection of a
  storage promise escape, in which case it sends nothing.
\<close>

record search_result =
  result_id :: int
  result_username :: string
  result_email :: string

datatype body =
    StatusText
  | ErrorJson string
  | MessageJson string
  | TokenJson token
  | UserJson User
  | UsersJson "User list"
  | ResultsJson "search_result list"

datatype outcome = Response nat body | Unhandled storage_error

section \<open>The request gate \<open>authenticateToken\<close>\<close>

text \<open>
  \<open>header\<close> is \<open>req.header('Authorization')\<close>: \<open>None\<close> when the request has no such
  header. \<open>!token\<close> also holds for the empty string. The gate either sends a status or
  calls \<open>next\<close> with the decoded token attached to the request as \<open>req.user\<close>.
\<close>

datatype gate = Sent nat | Next obj

definition authenticateToken :: "config \<Rightarrow> token option \<Rightarrow> gate" where
  "authenticateToken c header =
     (case header of
        None \<Rightarrow> Sent 401
      | Some t \<Rightarrow>
          if t = Garbage [] then Sent 401
          else (case verifyToken c t of
                  None \<Rightarrow> Sent 403
                | Some decodedToken \<Rightarrow> Next decodedToken))"

section \<open>The handlers of index.ts\<close>

text \<open>
  Each handler takes the table, \<open>req.user\<close> as the gate attached it, and what it reads
  of the request. A handler that writes also takes what the model needs for the
  timestamps, and returns the table after it.
\<close>

definition login :: "config \<Rightarrow> db \<Rightarrow> obj \<Rightarrow> outcome" where
  "login c d body =
     (case findOne d [(''email'', Eq (get body ''email'')), (''password'', Eq (get body ''password''))] of
        Inl e \<Rightarrow> Response 500 (ErrorJson ''Failed to log in'')
      | Inr None \<Rightarrow> Response 401 (ErrorJson ''Invalid credentials'')
      | Inr (Some user) \<Rightarrow>
          (case signToken c [(''userId'', Num (id' user))] of
             None \<Rightarrow> Response 500 (ErrorJson ''Failed to log in'')
           | Some t \<Rightarrow> Response 200 (TokenJson t)))"

definition get_notes :: "db \<Rightarrow> obj \<Rightarrow> outcome" where
  "get_notes d user =
     (case findAll d [(''userId'', Eq (get user ''userId''))] of
        Inl e \<Rightarrow> Response 500 (ErrorJson ''Failed to retrieve notes'')
      | Inr notes \<Rightarrow> Response 200 (UsersJson notes))"

definition get_note :: "db \<Rightarrow> obj \<Rightarrow> string \<Rightarrow> outcome" where
  "get_note d user noteId =
     (case findOne d [(''id'', Eq (Str noteId)), (''userId'', Eq (get user ''userId''))] of
        Inl e \<Rightarrow> Response 500 (ErrorJson ''Failed to retrieve note'')
      | Inr None \<Rightarrow> Response 404 (ErrorJson ''Note not found'')
      | Inr (Some note) \<Rightarrow> Response 200 (UserJson note))"

definition post_note :: "dates \<Rightarrow> db \<Rightarrow> obj \<Rightarrow> obj \<Rightarrow> outcome \<times> db" where
  "post_note ds d user body =
     (case create ds d (spread_with body ''userId'' (get user ''userId'')) of
        Inl e \<Rightarrow> (Response 500 (ErrorJson ''Failed to create a new note''), d)
      | Inr (newNote, d') \<Rightarrow> (Response 201 (UserJson newNote), d'))"

definition put_note :: "dates \<Rightarrow> db \<Rightarrow> obj \<Rightarrow> string \<Rightarrow> obj \<Rightarrow> outcome \<times> db" where
  "put_note ds d user noteId body =
     (case update ds d body [(''id'', Eq (Str noteId)), (''userId'', Eq (get user ''userId''))] of
        Inl e \<Rightarrow> (Response 500 (ErrorJson ''Failed to update note''), d)
      | Inr (updatedRowsCount, d') \<Rightarrow>
          if updatedRowsCount = 0 then (Response 404 (ErrorJson ''Note not found''), d')
          else (Response 204 StatusText, d'))"

definition delete_note :: "db \<Rightarrow> obj \<Rightarrow> string \<Rightarrow> outcome \<times> db" where
  "delete_note d user noteId =
     (case destroy d [(''id'', Eq (Str noteId)), (''userId'', Eq (get user ''userId''))] of
        Inl e \<Rightarrow> (Response 500 (ErrorJson ''Failed to delete note''), d)
      | Inr (deletedRowsCount, d') \<Rightarrow>
          if deletedRowsCount = 0 then (Response 404 (ErrorJson ''Note not found''), d')
          else (Response 204 StatusText, d'))"

text \<open>\<open>addSharedUser\<close> of models/Users.ts throws \<open>Error("Method not implemented.")\<close>.\<close>

definition addSharedUser :: "User \<Rightarrow> User \<Rightarrow> string + unit" where
  "addSharedUser note userToShareWith = Inl ''Method not implemented.''"

definition share_note :: "db \<Rightarrow> obj \<Rightarrow> string \<Rightarrow> obj \<Rightarrow> outcome \<times> db" where
  "share_note d user noteId body =
     (case findOne d [(''id'', Eq (Str noteId)), (''userId'', Eq (get user ''userId''))] of
        Inl e \<Rightarrow> (Response 500 (ErrorJson ''Failed to share the note''), d)
      | Inr None \<Rightarrow>
          (Response 404
             (ErrorJson ''Note not found or does not belong to the authenticated user''), d)
      | Inr (Some note) \<Rightarrow>
          (case findOne d [(''id'', Eq (get body ''sharedWithUserId''))] of
             Inl e \<Rightarrow> (Response 500 (ErrorJson ''Failed to share the note''), d)
           | Inr None \<Rightarrow> (Response 404 (ErrorJson ''User to share with not found''), d)
           | Inr (Some userToShareWith) \<Rightarrow>
               (case addSharedUser note userToShareWith of
                  Inl e \<Rightarrow> (Response 500 (ErrorJson ''Failed to share the note''), d)
                | Inr u \<Rightarrow> (Response 200 (MessageJson ''Note shared successfully''), d))))"

text \<open>
  The search handler has no \<open>try\<close>: when \<open>findAll\<close> rejects, the rejection leaves
  the handler. \<open>q\<close> is \<open>req.query.q\<close>; the template literal renders a missing one as
  the text \<open>undefined\<close>.
\<close>

definition search :: "db \<Rightarrow> string option \<Rightarrow> outcome" where
  "search d q =
     (let query = (case q of None \<Rightarrow> ''undefined'' | Some s \<Rightarrow> s) in
      case findAll d [(''username'', Like (''%'' @ query @ ''%''))] of
        Inl e \<Rightarrow> Unhandled e
      | Inr users \<Rightarrow>
          Response 200 (ResultsJson (map (\<lambda>user. \<lparr>result_id = id' user,
                                                   result_username = username user,
                                                   result_email = email user\<rparr>) users)))"

section \<open>The application: login, then the gate, then the other routes\<close>

datatype route =
    PostLogin
  | GetNotes
  | GetNote string
  | PostNote
  | PutNote string
  | DeleteNote string
  | PostShare string
  | GetSearch
  | NoRoute

record request =
  req_route :: route
  req_authorization :: "token option"
  req_body :: obj
  req_q :: "string option"

text \<open>
  The login route is registered before \<open>app.use(authenticateToken)\<close>; every other
  request meets the gate first. A request that no route matches gets the framework's
  404 after the gate.
\<close>

definition routes :: "dates \<Rightarrow> db \<Rightarrow> obj \<Rightarrow> request \<Rightarrow> outcome \<times> db" where
  "routes ds d user req =
     (case req_route req of
        GetNotes \<Rightarrow> (get_notes d user, d)
      | GetNote noteId \<Rightarrow> (get_note d user noteId, d)
      | PostNote \<Rightarrow> post_note ds d user (req_body req)
      | PutNote noteId \<Rightarrow> put_note ds d user noteId (req_body req)
      | DeleteNote noteId \<Rightarrow> delete_note d user noteId
      | PostShare noteId \<Rightarrow> share_note d user noteId (req_body req)
      | GetSearch \<Rightarrow> (search d (req_q req), d)
      | _ \<Rightarrow> (Response 404 StatusText, d))"

definition app :: "config \<Rightarrow> db \<Rightarrow> request \<Rightarrow> outcome \<times> db" where
  "app c d req =
     (if req_route req = PostLogin then (login c d (req_body req), d)
      else (case authenticateToken c (req_authorization req) of
              Sent status \<Rightarrow> (Response status StatusText, d)
            | Next user \<Rightarrow> routes (orm_dates c) d user req))"

section \<open>Predicates of the statements\<close>

text \<open>
  Values of an update that are well formed for the model: the id, when given, is a
  32-bit number; username, email and password, when given, are strings that the column
  can hold; \<open>createdAt\<close> is not given. Keys that are not attributes of the model
  are free.
\<close>

definition text_given :: "js \<Rightarrow> bool" where
  "text_given v = (case v of Undefined \<Rightarrow> True | Str s \<Rightarrow> storable s | _ \<Rightarrow> False)"

definition accepted :: "obj \<Rightarrow> bool" where
  "accepted values =
     ((case get values ''id'' of Undefined \<Rightarrow> True | Num n \<Rightarrow> int4 n | _ \<Rightarrow> False)
      \<and> text_given (get values ''username'') \<and> text_given (get values ''email'')
      \<and> text_given (get values ''password'')
      \<and> get values ''createdAt'' = Undefined)"

text \<open>
  A search text without a character that \<open>LIKE\<close> reads specially and without
  the character U+0000, which the query builder rewrites.
\<close>

definition plain :: "string \<Rightarrow> bool" where
  "plain s = (\<forall>c \<in> set s. c \<noteq> CHR ''%'' \<and> c \<noteq> CHR ''_'' \<and> c \<noteq> CHR 0x5C
                           \<and> c \<noteq> CHR 0x00)"

text \<open>The public fields of a row, as the search handler projects them.\<close>

definition public_fields :: "Users_row \<Rightarrow> search_result" where
  "public_fields r = \<lparr>result_id = id' r, result_username = username r, result_email = email r\<rparr>"

section \<open>An example table\<close>

text \<open>
  Two rows: one that the subject 1 owns, one without an owner, as \<open>create\<close>
  leaves it.
\<close>

definition ann :: Users_row where
  "ann = \<lparr>id' = 1, username = ''ann'', email = ''a@x.com'', password = ''p1'',
           createdAt = 1600000000000, updatedAt = 1600000000000, userId = Some 1\<rparr>"

definition bob :: Users_row where
  "bob = \<lparr>id' = 2, username = ''bob'', email = ''b@x.com'', password = ''p2'',
           createdAt = 1650000000000, updatedAt = 1650000000000, userId = None\<rparr>"

definition example_db :: db where
  "example_db = \<lparr>rows = [ann, bob], next_id = 3, down = False\<rparr>"

definition example_dates :: dates where
  "example_dates = \<lparr>date_now = 1700000000000,
                     date_in = (\<lambda>v. case v of Num n \<Rightarrow> Some n | _ \<Rightarrow> None)\<rparr>"

definition example_config :: config where
  "example_config = \<lparr>JWT_SECRET = None, clock = 1700000000,
                      hmac = (\<lambda>key a payload. key @ ''.'' @ concat (map fst payload)),
                      orm_dates = example_dates\<rparr>"

section \<open>The owner filter\<close>

lemma owner_filter:
  assumes "pg_int noteId = Some n"
  shows "where_clause [(''id'', Eq (Str noteId)), (''userId'', Eq (Num s))]
         = Inr (\<lambda>r. id' r = n \<and> userId r = Some s)"
  using assms by (simp add: cond_def int_cond_def)

lemma no_match:
  assumes "N \<in> set rs" "distinct (map id' rs)" "userId N \<noteq> Some s"
  shows "filter (\<lambda>r. id' r = id' N \<and> userId r = Some s) rs = []"
proof -
  have "r = N" if "r \<in> set rs" "id' r = id' N" for r
    using that assms(1,2) by (meson distinct_map inj_onD)
  then show ?thesis using assms(3) by (auto simp: filter_empty_conv)
qed

lemma filter_none_all: "filter p rs = [] \<Longrightarrow> filter (\<lambda>r. \<not> p r) rs = rs"
  by (induction rs) (auto split: if_splits)

lemma findOne_none:
  "query d w = Inr p \<Longrightarrow> filter p (rows d) = [] \<Longrightarrow> findOne d w = Inr None"
  by (simp add: findOne_def)

lemma destroy_none:
  assumes "query d w = Inr p" "filter p (rows d) = []"
  shows "destroy d w = Inr (0, d)"
proof -
  have "filter (\<lambda>r. \<not> p r) (rows d) = rows d"
    by (rule filter_none_all [OF assms(2)])
  then show ?thesis using assms by (simp add: destroy_def)
qed

text \<open>
  An update that matches no row writes nothing: it resolves to 0 with the table as it
  was, or it fails.
\<close>

lemma update_none:
  assumes "query d w = Inr p" "filter p (rows d) = []"
  shows "update ds d values w = Inr (0, d) \<or> (\<exists>e. update ds d values w = Inl e)"
proof -
  have "filter (\<lambda>r. \<not> p r) (rows d) = rows d"
    by (rule filter_none_all [OF assms(2)])
  then show ?thesis
    using assms by (auto simp: update_def split: sum.splits)
qed

lemma accepted_id: 
  assumes "case v of Undefined \<Rightarrow> True | Num n \<Rightarrow> int4 n | _ \<Rightarrow> False"
  shows "\<exists>f. set_id v = Inr f"
  using assms by (cases v) (simp_all add: set_id_def)

lemma accepted_text: "text_given v \<Longrightarrow> v \<noteq> Null \<and> (\<exists>f. set_text v = Inr f)"
  by (cases v) (simp_all add: text_given_def set_text_def text_of_def)

lemma accepted_assignments:
  assumes "accepted values"
  shows "\<exists>f. assignments ds values = Inr f"
proof -
  from assms obtain fi where "set_id (get values ''id'') = Inr fi"
    using accepted_id by (auto simp: accepted_def)
  moreover from assms obtain fu where "set_text (get values ''username'') = Inr fu"
    using accepted_text by (auto simp: accepted_def)
  moreover from assms obtain fe where "set_text (get values ''email'') = Inr fe"
    using accepted_text by (auto simp: accepted_def)
  moreover from assms obtain fp where "set_text (get values ''password'') = Inr fp"
    using accepted_text by (auto simp: accepted_def)
  moreover from assms have "set_createdAt ds (get values ''createdAt'') = Inr (\<lambda>old. Some old)"
    by (simp add: accepted_def set_createdAt_def)
  ultimately show ?thesis by (simp add: assignments_def)
qed

lemma update_accepted:
  assumes "query d w = Inr p" "filter p (rows d) = []" "accepted values"
  shows "update ds d values w = Inr (0, d)"
proof -
  have same: "filter (\<lambda>r. \<not> p r) (rows d) = rows d"
    by (rule filter_none_all [OF assms(2)])
  from assms(3) have valid: "\<not> null_given values ''username''" "\<not> null_given values ''email''"
    "\<not> null_given values ''password''"
    using accepted_text by (auto simp: accepted_def null_given_def)
  from accepted_assignments [OF assms(3)] obtain f where "assignments ds values = Inr f"
    by blast
  then show ?thesis
    using assms(1,2) same valid by (simp add: update_def)
qed

text \<open>
  C1, as stated, fails for the update: with the body \<open>{"username": null}\<close> the
  model refuses the values before any row is looked for, and the subject 2, who does
  not own the row 1, is answered 500, not 404. The table is as it was.
\<close>

theorem not_owner_update_counterexample:
  "put_note example_dates example_db [(''userId'', Num 2)] ''1'' [(''username'', Null)]
     = (Response 500 (ErrorJson ''Failed to update note''), example_db)"
  by (simp add: put_note_def update_def null_given_def get_def)

text \<open>
  C1, amended. Let \<open>N\<close> be a row of the table whose owner is not the subject \<open>S\<close>
  of the request, let the request name the id of \<open>N\<close>, and let the connection be up;
  the primary key is unique. Then get by id and delete by id answer 404
  \<open>Note not found\<close>. Update by id answers 404 when the values of the body are well
  formed for the model, and in every case answers either 404 or the 500 of a refused
  body. Update and delete leave the table, and so \<open>N\<close>, as it was; get by id only
  reads.
\<close>

theorem not_owner_not_found:
  assumes N: "N \<in> set (rows d)"
    and other: "userId N \<noteq> Some S"
    and subject: "get user ''userId'' = Num S"
    and pk: "distinct (map id' (rows d))"
    and noteId: "pg_int noteId = Some (id' N)"
    and up: "\<not> down d"
  shows "get_note d user noteId = Response 404 (ErrorJson ''Note not found'')
       \<and> delete_note d user noteId = (Response 404 (ErrorJson ''Note not found''), d)
       \<and> (accepted values \<longrightarrow>
            put_note ds d user noteId values = (Response 404 (ErrorJson ''Note not found''), d))
       \<and> (put_note ds d user noteId values = (Response 404 (ErrorJson ''Note not found''), d)
            \<or> put_note ds d user noteId values
                = (Response 500 (ErrorJson ''Failed to update note''), d))"
proof -
  let ?w = "[(''id'', Eq (Str noteId)), (''userId'', Eq (get user ''userId''))]"
  let ?p = "\<lambda>r. id' r = id' N \<and> userId r = Some S"
  have q: "query d ?w = Inr ?p"
    using up owner_filter [OF noteId] by (simp add: query_def subject)
  have none: "filter ?p (rows d) = []"
    by (rule no_match [OF N pk other])
  have g: "get_note d user noteId = Response 404 (ErrorJson ''Note not found'')"
    by (simp add: get_note_def findOne_none [OF q none])
  have del: "delete_note d user noteId = (Response 404 (ErrorJson ''Note not found''), d)"
    by (simp add: delete_note_def destroy_none [OF q none])
  have put: "put_note ds d user noteId values = (Response 404 (ErrorJson ''Note not found''), d)"
    if "accepted values"
    by (simp add: put_note_def update_accepted [OF q none that])
  have any: "put_note ds d user noteId values = (Response 404 (ErrorJson ''Note not found''), d)
       \<or> put_note ds d user noteId values = (Response 500 (ErrorJson ''Failed to update note''), d)"
    using update_none [OF q none, of ds "values"] by (auto simp: put_note_def)
  from g del put any show ?thesis by blast
qed

lemma pg_int_1: "pg_int ''1'' = Some 1"
  by (simp add: pg_int_def digits_val_def digit_val_def is_digit_def)

theorem not_owner_not_found_witness:
  "get_note example_db [(''userId'', Num 2)] ''1'' = Response 404 (ErrorJson ''Note not found'')
   \<and> delete_note example_db [(''userId'', Num 2)] ''1''
       = (Response 404 (ErrorJson ''Note not found''), example_db)
   \<and> put_note example_dates example_db [(''userId'', Num 2)] ''1''
        [(''username'', Str ''eve''), (''title'', Str ''mine'')]
       = (Response 404 (ErrorJson ''Note not found''), example_db)"
  using not_owner_not_found
    [of ann example_db 2 "[(''userId'', Num 2)]" "''1''"
        "[(''username'', Str ''eve''), (''title'', Str ''mine'')]" example_dates]
  by (simp add: example_db_def ann_def bob_def get_def accepted_def text_given_def storable_def
        pg_int_1)

section \<open>Deleting twice\<close>







section \<open>Sharing\<close>

lemma findOne_some:
  assumes "query d w = Inr p" "r \<in> set (rows d)" "p r"
  shows "\<exists>u. findOne d w = Inr (Some u)"
proof -
  from assms(2,3) have "filter p (rows d) \<noteq> []"
    by (auto simp: filter_empty_conv)
  then show ?thesis
    using assms(1) by (cases "filter p (rows d)") (simp_all add: findOne_def)
qed


text \<open>The share handler writes nothing and never answers 200, whatever the request.\<close>

lemma share_note_table: "snd (share_note d user noteId values) = d"
  by (simp add: share_note_def addSharedUser_def split: sum.splits option.splits)

lemma share_note_never_200: "fst (share_note d user noteId values) \<noteq> Response 200 b"
  by (simp add: share_note_def addSharedUser_def split: sum.splits option.splits)

text \<open>
  C7. When the note exists and the subject owns it, and the user to share with exists,
  the share handler reaches \<open>addSharedUser\<close>, which throws; the handler answers 500
  \<open>Failed to share the note\<close> and the table is as it was: no sharing is recorded.
\<close>

theorem share_always_fails:
  assumes owned: "N \<in> set (rows d)" "userId N = Some S"
    and subject: "get user ''userId'' = Num S"
    and noteId: "pg_int noteId = Some (id' N)"
    and target: "T \<in> set (rows d)" "get values ''sharedWithUserId'' = Num (id' T)"
    and up: "\<not> down d"
  shows "share_note d user noteId values
         = (Response 500 (ErrorJson ''Failed to share the note''), d)"
proof -
  let ?w = "[(''id'', Eq (Str noteId)), (''userId'', Eq (get user ''userId''))]"
  let ?t = "[(''id'', Eq (get values ''sharedWithUserId''))]"
  have q: "query d ?w = Inr (\<lambda>r. id' r = id' N \<and> userId r = Some S)"
    using up owner_filter [OF noteId] by (simp add: query_def subject)
  from findOne_some [OF q owned(1)] owned(2)
  obtain n where n: "findOne d ?w = Inr (Some n)" by auto
  have qt: "query d ?t = Inr (\<lambda>r. id' r = id' T)"
    using up by (simp add: query_def cond_def int_cond_def target(2))
  from findOne_some [OF qt target(1)]
  obtain u where u: "findOne d ?t = Inr (Some u)" by auto
  show ?thesis
    by (simp add: share_note_def n u addSharedUser_def)
qed

theorem share_always_fails_witness:
  "share_note example_db [(''userId'', Num 1)] ''1'' [(''sharedWithUserId'', Num 2)]
     = (Response 500 (ErrorJson ''Failed to share the note''), example_db)"
  using share_always_fails [of ann example_db 1 "[(''userId'', Num 1)]" "''1''" bob
      "[(''sharedWithUserId'', Num 2)]"]
  by (simp add: example_db_def ann_def bob_def get_def pg_int_1)

section \<open>Login and the token it issues\<close>









section \<open>The gate\<close>

lemma verifyToken_Garbage: "verifyToken c (Garbage s) = None"
  by (simp add: verifyToken_def jwt_verify_def)

lemma verifyToken_alg: "a \<noteq> HS256 \<Longrightarrow> verifyToken c (Jws a payload sig) = None"
  by (simp add: verifyToken_def jwt_verify_def)

lemma verifyToken_signature:
  "sig \<noteq> hmac c (secretKey (JWT_SECRET c)) a payload \<Longrightarrow> verifyToken c (Jws a payload sig) = None"
  by (cases "a = HS256") (simp_all add: verifyToken_def jwt_verify_def)

text \<open>
  C3, as stated, fails for a request whose \<open>Authorization\<close> header is present and
  empty: \<open>verifyToken\<close> refuses the empty string, yet the gate answers 401, not 403,
  because \<open>!token\<close> holds for the empty string.
\<close>

theorem gate_empty_header_counterexample:
  "verifyToken example_config (Garbage []) = None
   \<and> app example_config example_db
        \<lparr>req_route = GetNotes, req_authorization = Some (Garbage []), req_body = [], req_q = None\<rparr>
       = (Response 401 StatusText, example_db)"
  by (simp add: app_def authenticateToken_def verifyToken_Garbage)

text \<open>
  C3, amended. For a request to a route other than login: when the header is absent
  or empty the gate answers 401; when it is present, not empty, and \<open>verifyToken\<close>
  returns \<open>null\<close>, the gate answers 403; when \<open>verifyToken\<close> returns a payload,
  the gate attaches it as \<open>req.user\<close> and the route's handler runs with it.
  \<open>verifyToken\<close> returns \<open>null\<close>, and does not throw, for every string that is not
  a token, every token of another algorithm than HS256, and every token whose signature
  is not the one the service's secret gives.
\<close>

theorem gate_outcomes:
  assumes "req_route req \<noteq> PostLogin"
  shows "(req_authorization req = None \<or> req_authorization req = Some (Garbage [])
            \<longrightarrow> app c d req = (Response 401 StatusText, d))
       \<and> (req_authorization req = Some t \<and> t \<noteq> Garbage [] \<and> verifyToken c t = None
            \<longrightarrow> app c d req = (Response 403 StatusText, d))
       \<and> (req_authorization req = Some t \<and> verifyToken c t = Some user
            \<longrightarrow> authenticateToken c (req_authorization req) = Next user
                \<and> app c d req = routes (orm_dates c) d user req)
       \<and> verifyToken c (Garbage s) = None
       \<and> (a \<noteq> HS256 \<or> sig \<noteq> hmac c (secretKey (JWT_SECRET c)) a payload
            \<longrightarrow> verifyToken c (Jws a payload sig) = None)"
proof (intro conjI impI)
  assume "req_authorization req = None \<or> req_authorization req = Some (Garbage [])"
  then show "app c d req = (Response 401 StatusText, d)"
    using assms by (auto simp: app_def authenticateToken_def)
next
  assume "req_authorization req = Some t \<and> t \<noteq> Garbage [] \<and> verifyToken c t = None"
  then show "app c d req = (Response 403 StatusText, d)"
    using assms by (simp add: app_def authenticateToken_def)
next
  assume v: "req_authorization req = Some t \<and> verifyToken c t = Some user"
  then have "t \<noteq> Garbage []" by (auto simp: verifyToken_Garbage)
  with v show g: "authenticateToken c (req_authorization req) = Next user"
    by (simp add: authenticateToken_def)
  then show "app c d req = routes (orm_dates c) d user req"
    using assms by (simp add: app_def)
next
  show "verifyToken c (Garbage s) = None" by (rule verifyToken_Garbage)
next
  assume "a \<noteq> HS256 \<or> sig \<noteq> hmac c (secretKey (JWT_SECRET c)) a payload"
  then show "verifyToken c (Jws a payload sig) = None"
    using verifyToken_alg verifyToken_signature by blast
qed

lemma verify_ann:
  "verifyToken example_config
     (Jws HS256 [(''userId'', Num 1), (''iat'', Num 1700000000)] ''yourSecretKey.userIdiat'')
   = Some [(''userId'', Num 1), (''iat'', Num 1700000000)]"
  by (simp add: verifyToken_def jwt_verify_def get_def example_config_def secretKey_def)

lemma verify_forged:
  "verifyToken example_config (Jws HS256 [(''userId'', Num 1)] ''forged'') = None"
  by (simp add: verifyToken_def jwt_verify_def get_def example_config_def secretKey_def)

theorem gate_outcomes_witness:
  "app example_config example_db
     \<lparr>req_route = GetNotes, req_authorization = None, req_body = [], req_q = None\<rparr>
     = (Response 401 StatusText, example_db)
   \<and> app example_config example_db
     \<lparr>req_route = GetNotes, req_authorization = Some (Jws HS256 [(''userId'', Num 1)] ''forged''),
      req_body = [], req_q = None\<rparr>
     = (Response 403 StatusText, example_db)
   \<and> app example_config example_db
     \<lparr>req_route = GetNotes,
      req_authorization = Some (Jws HS256 [(''userId'', Num 1), (''iat'', Num 1700000000)]
                                 ''yourSecretKey.userIdiat''),
      req_body = [], req_q = None\<rparr>
     = routes (orm_dates example_config) example_db [(''userId'', Num 1), (''iat'', Num 1700000000)]
         \<lparr>req_route = GetNotes,
          req_authorization = Some (Jws HS256 [(''userId'', Num 1), (''iat'', Num 1700000000)]
                                     ''yourSecretKey.userIdiat''),
          req_body = [], req_q = None\<rparr>
   \<and> verifyToken example_config (Jws HS384 [(''userId'', Num 1)] ''x'') = None"
  using verify_ann verify_forged
    gate_outcomes [where c = example_config and d = example_db and a = HS384
      and sig = "''x''" and payload = "[(''userId'', Num 1)]"
      and req = "\<lparr>req_route = GetNotes, req_authorization = None, req_body = [], req_q = None\<rparr>"]
    gate_outcomes [where c = example_config and d = example_db
      and t = "Jws HS256 [(''userId'', Num 1)] ''forged''"
      and req = "\<lparr>req_route = GetNotes,
                  req_authorization = Some (Jws HS256 [(''userId'', Num 1)] ''forged''),
                  req_body = [], req_q = None\<rparr>"]
    gate_outcomes [where c = example_config and d = example_db
      and t = "Jws HS256 [(''userId'', Num 1), (''iat'', Num 1700000000)] ''yourSecretKey.userIdiat''"
      and user = "[(''userId'', Num 1), (''iat'', Num 1700000000)]"
      and req = "\<lparr>req_route = GetNotes,
                  req_authorization = Some (Jws HS256 [(''userId'', Num 1), (''iat'', Num 1700000000)]
                                             ''yourSecretKey.userIdiat''),
                  req_body = [], req_q = None\<rparr>"]
  by simp

section \<open>Search\<close>

lemma like_ok_no_escape: "CHR 0x5C \<notin> set p \<Longrightarrow> like_ok p"
  by (induction p rule: like_ok.induct) auto

lemma like_percent: "like (CHR ''%'' # p) s \<longleftrightarrow> (\<exists>t. suffix t s \<and> like p t)"
proof (induction s)
  case Nil
  then show ?case by simp
next
  case (Cons x s)
  have "like (CHR ''%'' # p) (x # s) \<longleftrightarrow> like p (x # s) \<or> like (CHR ''%'' # p) s"
    by simp
  also have "\<dots> \<longleftrightarrow> like p (x # s) \<or> (\<exists>t. suffix t s \<and> like p t)"
    using Cons.IH by simp
  also have "\<dots> \<longleftrightarrow> (\<exists>t. suffix t (x # s) \<and> like p t)"
    by (auto simp: suffix_Cons)
  finally show ?case .
qed

lemma like_plain_prefix: "plain q \<Longrightarrow> like (q @ ''%'') s \<longleftrightarrow> prefix q s"
proof (induction q arbitrary: s)
  case Nil
  have "like ''%'' s" by (induction s) simp_all
  then show ?case by simp
next
  case (Cons c q)
  then have c: "c \<noteq> CHR ''%''" "c \<noteq> CHR ''_''" "c \<noteq> CHR 0x5C" and q: "plain q"
    by (simp_all add: plain_def)
  show ?case
  proof (cases s)
    case Nil
    then show ?thesis using c by simp
  next
    case (Cons x s')
    then show ?thesis using c Cons.IH [OF q, of s'] by auto
  qed
qed

lemma sql_literal_plain: "CHR 0x00 \<notin> set s \<Longrightarrow> sql_literal s = s"
  by (induction s) (auto simp: sql_literal_def)

lemma like_contains:
  assumes "plain q"
  shows "like (''%'' @ q @ ''%'') s \<longleftrightarrow> sublist q s"
proof -
  have "like (''%'' @ q @ ''%'') s \<longleftrightarrow> (\<exists>t. suffix t s \<and> like (q @ ''%'') t)"
    using like_percent [of "q @ ''%''" s] by simp
  also have "\<dots> \<longleftrightarrow> (\<exists>t. suffix t s \<and> prefix q t)"
    using like_plain_prefix [OF assms] by simp
  also have "\<dots> \<longleftrightarrow> sublist q s"
    by (simp add: sublist_altdef')
  finally show ?thesis .
qed

text \<open>
  C5, as stated, fails for a search text that \<open>LIKE\<close> reads as a pattern: with
  \<open>q = _\<close> the user \<open>bob\<close> is returned, whose name does not contain \<open>_\<close>.
\<close>

theorem search_wildcard_counterexample:
  "search (example_db\<lparr>rows := [bob]\<rparr>) (Some ''_'')
     = Response 200 (ResultsJson [\<lparr>result_id = 2, result_username = ''bob'',
                                   result_email = ''b@x.com''\<rparr>])
   \<and> \<not> sublist ''_'' ''bob''"
  by (simp add: search_def findAll_def query_def cond_def str_cond_def instance_of_def
        sql_literal_def example_db_def bob_def sublist_Cons_right)

text \<open>
  C5, amended. For a search text \<open>q\<close> without \<open>%\<close>, \<open>_\<close>, backslash and the
  character U+0000, and with the connection up, the search answers 200 with exactly
  the rows whose username contains \<open>q\<close>, each projected to id, username and email.
  A \<open>search_result\<close> has no password field.
\<close>

theorem search_plain_text:
  assumes up: "\<not> down d" and pl: "plain q"
  shows "search d (Some q)
         = Response 200 (ResultsJson (map public_fields
             (filter (\<lambda>r. sublist q (username r)) (rows d))))"
proof -
  have lit: "sql_literal (''%'' @ q @ ''%'') = ''%'' @ q @ ''%''"
    using pl by (intro sql_literal_plain) (auto simp: plain_def)
  have ok: "like_ok (''%'' @ q @ ''%'')"
    using pl by (intro like_ok_no_escape) (auto simp: plain_def)
  have "query d [(''username'', Like (''%'' @ q @ ''%''))]
        = Inr (\<lambda>r. like (''%'' @ q @ ''%'') (username r))"
    using up ok lit
    by (simp add: query_def cond_def str_cond_def del: like.simps like_ok.simps)
  also have "(\<lambda>r. like (''%'' @ q @ ''%'') (username r)) = (\<lambda>r. sublist q (username r))"
    using like_contains [OF pl] by simp
  finally show ?thesis
    by (simp add: search_def findAll_def public_fields_def instance_of_def del: like.simps)
qed

theorem search_plain_text_witness:
  "search example_db (Some ''o'')
     = Response 200 (ResultsJson [\<lparr>result_id = 2, result_username = ''bob'',
                                   result_email = ''b@x.com''\<rparr>])"
  using search_plain_text [of example_db "''o''"]
  by (simp add: plain_def example_db_def ann_def bob_def public_fields_def sublist_Cons_right)

section \<open>Storage failures\<close>

text \<open>
  Every handler with a \<open>try\<close> answers a failure of its storage call with 500 and a
  fixed text, and leaves the table as it was.
\<close>

lemma down_fails: "down d \<Longrightarrow> query d w = Inl ConnectionError"
  by (simp add: query_def)

lemma caught_get_notes:
  "findAll d [(''userId'', Eq (get user ''userId''))] = Inl e
   \<Longrightarrow> get_notes d user = Response 500 (ErrorJson ''Failed to retrieve notes'')"
  by (simp add: get_notes_def)

lemma caught_get_note:
  "findOne d [(''id'', Eq (Str noteId)), (''userId'', Eq (get user ''userId''))] = Inl e
   \<Longrightarrow> get_note d user noteId = Response 500 (ErrorJson ''Failed to retrieve note'')"
  by (simp add: get_note_def)

lemma caught_post_note:
  "create ds d (spread_with values ''userId'' (get user ''userId'')) = Inl e
   \<Longrightarrow> post_note ds d user values = (Response 500 (ErrorJson ''Failed to create a new note''), d)"
  by (simp add: post_note_def)

lemma caught_put_note:
  "update ds d values [(''id'', Eq (Str noteId)), (''userId'', Eq (get user ''userId''))] = Inl e
   \<Longrightarrow> put_note ds d user noteId values = (Response 500 (ErrorJson ''Failed to update note''), d)"
  by (simp add: put_note_def)

lemma caught_delete_note:
  "destroy d [(''id'', Eq (Str noteId)), (''userId'', Eq (get user ''userId''))] = Inl e
   \<Longrightarrow> delete_note d user noteId = (Response 500 (ErrorJson ''Failed to delete note''), d)"
  by (simp add: delete_note_def)

lemma caught_login:
  "findOne d [(''email'', Eq (get values ''email'')), (''password'', Eq (get values ''password''))] = Inl e
   \<Longrightarrow> login c d values = Response 500 (ErrorJson ''Failed to log in'')"
  by (simp add: login_def)

lemma caught_share_note:
  "findOne d [(''id'', Eq (Str noteId)), (''userId'', Eq (get user ''userId''))] = Inl e
   \<or> (findOne d [(''id'', Eq (Str noteId)), (''userId'', Eq (get user ''userId''))] = Inr (Some n)
       \<and> findOne d [(''id'', Eq (get values ''sharedWithUserId''))] = Inl e)
   \<Longrightarrow> share_note d user noteId values = (Response 500 (ErrorJson ''Failed to share the note''), d)"
  by (auto simp: share_note_def addSharedUser_def split: sum.splits option.splits)

lemma escaped_search:
  "findAll d [(''username'', Like (''%'' @ (case q of None \<Rightarrow> ''undefined'' | Some s \<Rightarrow> s) @ ''%''))] = Inl e
   \<Longrightarrow> search d q = Unhandled e"
  by (simp add: search_def del: like.simps)

text \<open>
  C6. The search handler has no \<open>try\<close>. With the connection down, \<open>findAll\<close>
  rejects and the rejection leaves the handler: no 500 is sent. The list handler, on the
  same table, answers 500.
\<close>

theorem search_failure_not_caught:
  "search (example_db\<lparr>down := True\<rparr>) (Some ''jo'') = Unhandled ConnectionError
   \<and> get_notes (example_db\<lparr>down := True\<rparr>) [(''userId'', Num 1)]
       = Response 500 (ErrorJson ''Failed to retrieve notes'')"
  by (simp add: search_def get_notes_def findAll_def query_def example_db_def)

section \<open>Creating a note\<close>

lemma create_needs_username:
  "absent (get values ''username'') \<Longrightarrow> create ds d values = Inl ValidationError"
  by (simp add: create_def)

lemma get_spread_other: "k' \<noteq> k \<Longrightarrow> get (spread_with ob k v) k' = get ob k'"
  by (induction ob k v rule: spread_with.induct) (auto simp: get_def)

lemma get_spread_same: "get (spread_with ob k v) k = v"
  by (induction ob k v rule: spread_with.induct) (auto simp: get_def)

lemma post_note_documented_body:
  "post_note ds d user [(''title'', Str t), (''content'', Str c)]
     = (Response 500 (ErrorJson ''Failed to create a new note''), d)"
  by (simp add: post_note_def create_def get_def absent_def)

lemma created_rows:
  assumes "create ds d values = Inr (u, d')"
  shows "\<exists>r. rows d' = rows d @ [r] \<and> userId r = None \<and> instance_of r = u"
  using assms
  by (auto simp: create_def instance_of_def User.extend_def Users_row.fields_def Let_def
        split: if_splits sum.splits prod.splits option.splits)

text \<open>
  C8. The model \<open>User\<close> has no attributes \<open>title\<close> and \<open>content\<close>. A create
  request with the documented body (a title and a content) fails the validation of
  \<open>username\<close> and is answered 500. A body that also brings a username, an email and
  a password is answered 201 with an instance that has neither title nor content; the
  new row has no owner, so fetching it by the returned id answers 404.
\<close>

theorem create_then_fetch_fails:
  "post_note example_dates example_db [(''userId'', Num 1)]
     [(''title'', Str ''New Note''), (''content'', Str ''This is the content of the note.'')]
     = (Response 500 (ErrorJson ''Failed to create a new note''), example_db)
   \<and> post_note example_dates example_db [(''userId'', Num 1)]
     [(''username'', Str ''ann2''), (''email'', Str ''a2@x.com''), (''password'', Str ''p''),
      (''title'', Str ''New Note''), (''content'', Str ''This is the content of the note.'')]
     = (Response 201 (UserJson \<lparr>id' = 3, username = ''ann2'', email = ''a2@x.com'', password = ''p'',
                                 createdAt = 1700000000000, updatedAt = 1700000000000\<rparr>),
        example_db\<lparr>rows := [ann, bob, \<lparr>id' = 3, username = ''ann2'', email = ''a2@x.com'',
                                      password = ''p'', createdAt = 1700000000000,
                                      updatedAt = 1700000000000, userId = None\<rparr>],
                    next_id := 4\<rparr>)
   \<and> get_note (example_db\<lparr>rows := [ann, bob, \<lparr>id' = 3, username = ''ann2'', email = ''a2@x.com'',
                                      password = ''p'', createdAt = 1700000000000,
                                      updatedAt = 1700000000000, userId = None\<rparr>],
                    next_id := 4\<rparr>) [(''userId'', Num 1)] ''3''
     = Response 404 (ErrorJson ''Note not found'')"
  by (simp add: post_note_def create_def get_def absent_def falsy_def new_createdAt_def
        storable_def new_id_def text_of_def
        example_db_def example_dates_def ann_def bob_def User.extend_def Users_row.fields_def
        get_note_def findOne_def query_def cond_def int_cond_def
        pg_int_def digits_val_def digit_val_def is_digit_def)

text \<open>
  C10. The values that the handler passes to \<open>create\<close> carry the subject's id as
  \<open>userId\<close>, whatever \<open>userId\<close> the body brings. The model declares no attribute
  \<open>userId\<close>, so the row that is stored has no owner.
\<close>

theorem created_row_has_no_owner:
  "get (spread_with [(''username'', Str ''eve''), (''email'', Str ''e@x.com''),
                     (''password'', Str ''p''), (''userId'', Num 7)] ''userId'' (Num 1)) ''userId''
     = Num 1
   \<and> post_note example_dates example_db [(''userId'', Num 1)]
     [(''username'', Str ''eve''), (''email'', Str ''e@x.com''), (''password'', Str ''p''),
      (''userId'', Num 7)]
     = (Response 201 (UserJson \<lparr>id' = 3, username = ''eve'', email = ''e@x.com'', password = ''p'',
                                 createdAt = 1700000000000, updatedAt = 1700000000000\<rparr>),
        example_db\<lparr>rows := [ann, bob, \<lparr>id' = 3, username = ''eve'', email = ''e@x.com'',
                                      password = ''p'', createdAt = 1700000000000,
                                      updatedAt = 1700000000000, userId = None\<rparr>],
                    next_id := 4\<rparr>)"
  by (simp add: post_note_def create_def get_def absent_def falsy_def new_createdAt_def
        storable_def new_id_def text_of_def
        example_db_def example_dates_def ann_def bob_def User.extend_def Users_row.fields_def)

end
